theory Spec2Isabelle
  imports Main "HOL-Library.Sublist" "HOL-Library.AList"
begin

section \<open>Exceptions\<close>

text \<open>
  Every exception class that the modelled functions raise or let through is a constructor.
  \<open>CalledProcessError\<close> carries the fields of \<^verbatim>\<open>subprocess.CalledProcessError\<close>:
  return code, command, and the captured standard output and standard error, which are
  \<^verbatim>\<open>None\<close> when the call captured nothing. All of them are subclasses of
  \<^verbatim>\<open>Exception\<close>, the class that \<^verbatim>\<open>except Exception\<close> catches.
\<close>

datatype exn =
    DependencyError string
  | RegisteredTestError string
  | CalledProcessError int "string list" "string option" "string option"
  | OSError
  | TypeError
  | IndexError
  | KeyError
  | AttributeError
  | StopIteration
  | RunCmdError

section \<open>Dependency.py\<close>

subsection \<open>Paths and the local file system\<close>

text \<open>
  \<^verbatim>\<open>os.path.join\<close> on POSIX: a component that starts with the separator replaces what
  was joined so far; otherwise it is appended, with a separator unless the path so far is
  empty or already ends with one.
\<close>

definition join_step :: "string \<Rightarrow> string \<Rightarrow> string" where
  "join_step path b =
     (if b \<noteq> [] \<and> hd b = CHR ''/'' then b
      else if path = [] \<or> last path = CHR ''/'' then path @ b
      else path @ ''/'' @ b)"

definition path_join :: "string \<Rightarrow> string list \<Rightarrow> string" where
  "path_join a ps = foldl join_step a ps"

text \<open>\<^verbatim>\<open>str.endswith\<close>.\<close>

definition endswith :: "string \<Rightarrow> string \<Rightarrow> bool" where
  "endswith s suf = (length suf \<le> length s \<and> drop (length s - length suf) s = suf)"

text \<open>
  The state the functions of \<^verbatim>\<open>Dependency.py\<close> read and change: the directories and the
  regular files of the local file system (a file with its content), the permission bits set
  by \<^verbatim>\<open>os.chmod\<close>, the commands started through \<^verbatim>\<open>subprocess\<close> so far, and the lines
  written by \<^verbatim>\<open>print\<close>. A path is identified with its string. \<open>exit_status\<close> is the
  environment: the exit status of the command started as the \<open>n\<close>-th one, \<open>None\<close>
  when the program cannot be started at all. Messages sent to \<^verbatim>\<open>logging\<close> are not part
  of the state.
\<close>

record world =
  dirs :: "string set"
  files :: "string \<Rightarrow> string option"
  modes :: "string \<Rightarrow> nat option"
  exit_status :: "nat \<Rightarrow> string list \<Rightarrow> int option"
  calls :: "string list list"
  printed :: "string list"

text \<open>\<^verbatim>\<open>os.path.exists\<close>.\<close>

definition path_exists :: "world \<Rightarrow> string \<Rightarrow> bool" where
  "path_exists w p = (p \<in> dirs w \<or> files w p \<noteq> None)"

text \<open>The proper ancestors of a path: its prefixes up to a separator that is not the first character.\<close>

definition path_prefixes :: "string \<Rightarrow> string list" where
  "path_prefixes p = map (\<lambda>i. take i p) (filter (\<lambda>i. p ! i = CHR ''/'') [1..<length p])"

text \<open>
  \<^verbatim>\<open>os.makedirs(p, exist_ok=True)\<close>: creates the directory \<open>p\<close> and every missing
  ancestor; an existing directory is accepted, a regular file on the way is an \<^verbatim>\<open>OSError\<close>.
\<close>

definition makedirs :: "string \<Rightarrow> world \<Rightarrow> exn + world" where
  "makedirs p w =
     (if list_ex (\<lambda>a. files w a \<noteq> None) (path_prefixes p @ [p]) then Inl OSError
      else Inr (w\<lparr>dirs := dirs w \<union> set (path_prefixes p) \<union> {p}\<rparr>))"

text \<open>
  \<^verbatim>\<open>subprocess.check_call(cmd)\<close>: starts the command and waits; a non-zero status raises
  \<^verbatim>\<open>CalledProcessError(retcode, cmd)\<close>, whose \<^verbatim>\<open>stdout\<close> and \<^verbatim>\<open>stderr\<close> are
  \<^verbatim>\<open>None\<close> since \<^verbatim>\<open>check_call\<close> captures neither stream; a program that cannot be
  started raises an \<^verbatim>\<open>OSError\<close>.
\<close>

definition check_call :: "string list \<Rightarrow> world \<Rightarrow> (exn + unit) \<times> world" where
  "check_call cmd w =
     (case exit_status w (length (calls w)) cmd of
        None \<Rightarrow> (Inl OSError, w)
      | Some rc \<Rightarrow>
          if rc = 0 then (Inr (), w\<lparr>calls := calls w @ [cmd]\<rparr>)
          else (Inl (CalledProcessError rc cmd None None), w\<lparr>calls := calls w @ [cmd]\<rparr>))"

text \<open>\<^verbatim>\<open>print(x)\<close> for an optional string: \<^verbatim>\<open>None\<close> prints as the word None.\<close>

definition print_opt :: "string option \<Rightarrow> world \<Rightarrow> world" where
  "print_opt x w = w\<lparr>printed := printed w @ [case x of None \<Rightarrow> ''None'' | Some s \<Rightarrow> s]\<rparr>"

text \<open>\<^verbatim>\<open>os.chmod\<close> on an existing path.\<close>

definition chmod :: "string \<Rightarrow> nat \<Rightarrow> world \<Rightarrow> world" where
  "chmod p m w = w\<lparr>modes := (modes w)(p \<mapsto> m)\<rparr>"

subsection \<open>The class Dependency\<close>

text \<open>
  The attributes set by \<^verbatim>\<open>Dependency.__init__\<close> from the configuration file:
  \<^verbatim>\<open>_dependencies_root\<close>, \<^verbatim>\<open>_name\<close>, \<^verbatim>\<open>_languages\<close>, \<^verbatim>\<open>_version\<close>,
  \<^verbatim>\<open>_source_link\<close> and \<^verbatim>\<open>_package_manager\<close>.
\<close>

record dependency =
  dep_root :: string
  dep_name :: string
  dep_languages :: "string list option"
  dep_version :: string
  dep_source_link :: string
  dep_package_manager :: "string option"

definition local_dependency_dir :: "dependency \<Rightarrow> string" where
  "local_dependency_dir self =
     path_join (dep_root self) [dep_name self, dep_version self, dep_name self]"

definition download_cmd :: "dependency \<Rightarrow> string list" where
  "download_cmd self = [''wget'', dep_source_link self, ''-O'', local_dependency_dir self]"

text \<open>
  \<^verbatim>\<open>Dependency._get_exec\<close>. The handler of \<^verbatim>\<open>CalledProcessError\<close> prints the two
  fields of the exception and raises it again; any other exception passes the handler by.
  \<open>0o775\<close> is 509.
\<close>

definition get_exec :: "dependency \<Rightarrow> world \<Rightarrow> (exn + string) \<times> world" where
  "get_exec self w =
     (let p = local_dependency_dir self in
      if path_exists w p then (Inr p, w)
      else
        (case makedirs p w of
           Inl e \<Rightarrow> (Inl e, w)
         | Inr w1 \<Rightarrow>
             (case check_call (download_cmd self) w1 of
                (Inl (CalledProcessError rc cmd out err), w2) \<Rightarrow>
                  (Inl (CalledProcessError rc cmd out err), print_opt err (print_opt out w2))
              | (Inl e, w2) \<Rightarrow> (Inl e, w2)
              | (Inr u, w2) \<Rightarrow> (Inr p, chmod p 509 w2))))"

text \<open>
  \<^verbatim>\<open>Dependency.update_dot_env\<close>, on the string form \<^verbatim>\<open>str(home_dir)\<close> of its argument.
  Opening the file for appending needs the directory to exist and the name not to be a
  directory; the line is added after what the file holds.
\<close>

definition dot_env_error :: "string \<Rightarrow> string" where
  "dot_env_error home_dir =
     ''Dependency._update_dot_env(): provided home dir does not end with `home/dnanexus` - .env file will '' @
     ''not have a desired effect on the platform. Provided path `'' @ home_dir @ ''`''"

definition update_dot_env :: "dependency \<Rightarrow> string \<Rightarrow> world \<Rightarrow> (exn + bool) \<times> world" where
  "update_dot_env self home_dir w =
     (if \<not> endswith home_dir ''home/dnanexus'' then (Inl (DependencyError (dot_env_error home_dir)), w)
      else
        (let dot_env = dep_name self @ ''='' @ dep_version self @ [CHR 0x0A];
             dot_env_file = path_join home_dir [''.env'']
         in if home_dir \<notin> dirs w \<or> dot_env_file \<in> dirs w then (Inl OSError, w)
            else (Inr True,
                  w\<lparr>files := (files w)(dot_env_file \<mapsto>
                       (case files w dot_env_file of None \<Rightarrow> [] | Some old \<Rightarrow> old) @ dot_env)\<rparr>)))"

section \<open>output_utils.py\<close>

subsection \<open>JSON values and the platform\<close>

text \<open>
  What \<^verbatim>\<open>json.loads\<close> returns: \<^verbatim>\<open>None\<close>, a bool, an int, a str, a list, or a dict with
  string keys. A dict is the list of its items in insertion order, each key once. Numbers
  are integers here; the functions below only copy numbers.
\<close>

datatype json =
    JNull
  | JBool bool
  | JInt int
  | JStr string
  | JList "json list"
  | JDict "(string \<times> json) list"

text \<open>
  The document printed by \<^verbatim>\<open>dx describe <job> --json\<close>, after \<^verbatim>\<open>json.loads\<close>, read
  through \<^verbatim>\<open>description.get("state")\<close> and \<^verbatim>\<open>description.get("output")\<close>: the state is
  \<open>JNull\<close> when the key is absent; the output is \<open>None\<close> when the key is absent or null
  and the items of the output object otherwise.
\<close>

record job_description =
  desc_state :: json
  desc_output :: "(string \<times> json) list option"

text \<open>
  The two command lines the module builds, \<^verbatim>\<open>dx describe {job_id} --json\<close> and
  \<^verbatim>\<open>dx download {file_id} --output '{output_path}' --no-progress\<close>, by their arguments.
\<close>

datatype command = DxDescribe string | DxDownload json string

text \<open>
  Modelled from the spec: \<^verbatim>\<open>utils.run_cmd\<close>, \<^verbatim>\<open>utils.get_checksum\<close> and the class
  \<^verbatim>\<open>Dx\<close> are not among the sources. The platform answers a describe command with the job's
  description and a download command by writing the bytes of the named file to the given
  local path; a command that fails raises. \<open>get_file_name\<close> is the path-resolution helper
  \<^verbatim>\<open>Dx.get_file_name(outdir, file_id)\<close>, and \<open>checksum_of\<close> gives the text
  \<^verbatim>\<open>str(utils.get_checksum(path))\<close> as a function of the bytes stored at the path.
\<close>

record helpers =
  get_file_name :: "string \<Rightarrow> json \<Rightarrow> string"
  checksum_of :: "string \<Rightarrow> string"

record platform =
  describe :: "string \<Rightarrow> job_description option"
  remote_files :: "json \<Rightarrow> string option"
  local_files :: "string \<Rightarrow> string option"
  commands :: "command list"

definition run_describe :: "string \<Rightarrow> platform \<Rightarrow> (exn + job_description) \<times> platform" where
  "run_describe job_id w =
     (let w1 = w\<lparr>commands := commands w @ [DxDescribe job_id]\<rparr>
      in case describe w job_id of
           None \<Rightarrow> (Inl RunCmdError, w1)
         | Some description \<Rightarrow> (Inr description, w1))"

definition run_download :: "json \<Rightarrow> string \<Rightarrow> platform \<Rightarrow> (exn + unit) \<times> platform" where
  "run_download file_id output_path w =
     (let w1 = w\<lparr>commands := commands w @ [DxDownload file_id output_path]\<rparr>
      in case remote_files w file_id of
           None \<Rightarrow> (Inl RunCmdError, w1)
         | Some bytes \<Rightarrow> (Inr (), w1\<lparr>local_files := (local_files w1)(output_path \<mapsto> bytes)\<rparr>))"

subsection \<open>Indexing\<close>

text \<open>
  \<^verbatim>\<open>d[k]\<close> on a dict: a list or a dict as key is unhashable, a \<^verbatim>\<open>TypeError\<close>; any
  other key that is not among the (string) keys is a \<^verbatim>\<open>KeyError\<close>.
\<close>

fun hashable :: "json \<Rightarrow> bool" where
  "hashable (JList xs) = False"
| "hashable (JDict d) = False"
| "hashable v = True"

definition dict_getitem :: "(string \<times> json) list \<Rightarrow> json \<Rightarrow> exn + json" where
  "dict_getitem d k =
     (if \<not> hashable k then Inl TypeError
      else case k of
             JStr s \<Rightarrow> (case map_of d s of None \<Rightarrow> Inl KeyError | Some v \<Rightarrow> Inr v)
           | _ \<Rightarrow> Inl KeyError)"

text \<open>\<^verbatim>\<open>v[idx]\<close> for an index that \<^verbatim>\<open>enumerate\<close> produced.\<close>

fun getitem_idx :: "json \<Rightarrow> nat \<Rightarrow> exn + json" where
  "getitem_idx (JList xs) idx = (if idx < length xs then Inr (xs ! idx) else Inl IndexError)"
| "getitem_idx (JStr s) idx = (if idx < length s then Inr (JStr [s ! idx]) else Inl IndexError)"
| "getitem_idx (JDict d) idx = Inl KeyError"
| "getitem_idx v idx = Inl TypeError"

subsection \<open>get_modified_output and create_dx_output\<close>

text \<open>
  \<^verbatim>\<open>get_modified_output(output, outdir, dx)\<close>: the first value of the dict is the file
  id (\<^verbatim>\<open>next\<close> on an empty dict raises \<^verbatim>\<open>StopIteration\<close>); the file is downloaded to the
  path the helper names, and described by its checksum, location and size.
\<close>

definition get_modified_output ::
  "(string \<times> json) list \<Rightarrow> string \<Rightarrow> helpers \<Rightarrow> platform \<Rightarrow> (exn + json) \<times> platform" where
  "get_modified_output output outdir dx w =
     (case output of
        [] \<Rightarrow> (Inl StopIteration, w)
      | (k, file_id) # rest \<Rightarrow>
          (let output_path = get_file_name dx outdir file_id
           in case run_download file_id output_path w of
                (Inl e, w1) \<Rightarrow> (Inl e, w1)
              | (Inr u, w1) \<Rightarrow>
                  (case local_files w1 output_path of
                     None \<Rightarrow> (Inl OSError, w1)
                   | Some bytes \<Rightarrow>
                       (Inr (JDict [(''class'', JStr ''File''),
                                    (''checksum'', JStr (checksum_of dx bytes)),
                                    (''location'', JStr output_path),
                                    (''size'', JInt (int (length bytes)))]), w1))))"

text \<open>
  The inner loop of the list branch, \<^verbatim>\<open>for idx, value in enumerate(outputs[output])\<close>,
  with \<open>acc\<close> the list stored at \<^verbatim>\<open>results[key]\<close>. Each round evaluates
  \<^verbatim>\<open>outputs[outputs][idx]\<close> (the dict indexed by itself, then by \<open>idx\<close>), passes it to
  \<^verbatim>\<open>get_modified_output\<close> (whose \<^verbatim>\<open>output.values()\<close> needs a dict), and assigns the
  result at position \<open>idx\<close> of the stored list.
\<close>

fun list_branch ::
  "(string \<times> json) list \<Rightarrow> string \<Rightarrow> helpers \<Rightarrow> nat \<Rightarrow> json list \<Rightarrow> json list \<Rightarrow> platform
     \<Rightarrow> (exn + json list) \<times> platform" where
  "list_branch outputs outdir dx idx [] acc w = (Inr acc, w)"
| "list_branch outputs outdir dx idx (v # rest) acc w =
     (case dict_getitem outputs (JDict outputs) of
        Inl e \<Rightarrow> (Inl e, w)
      | Inr c \<Rightarrow>
          (case getitem_idx c idx of
             Inl e \<Rightarrow> (Inl e, w)
           | Inr (JDict d) \<Rightarrow>
               (case get_modified_output d outdir dx w of
                  (Inl e, w1) \<Rightarrow> (Inl e, w1)
                | (Inr r, w1) \<Rightarrow>
                    if idx < length acc
                    then list_branch outputs outdir dx (Suc idx) rest (acc[idx := r]) w1
                    else (Inl IndexError, w1))
           | Inr x \<Rightarrow> (Inl AttributeError, w)))"

text \<open>
  The body of \<^verbatim>\<open>for output in outputs\<close>. The first \<^verbatim>\<open>if\<close> handles a list value; the
  second \<^verbatim>\<open>if\<close>, which every value reaches, transforms a dict value and stores any other
  value as it is. \<^verbatim>\<open>results[key] = v\<close> keeps the position of a key already present and
  appends a new one, which is \<open>AList.update\<close>.
\<close>

definition process_output ::
  "string \<Rightarrow> (string \<times> json) list \<Rightarrow> string \<Rightarrow> helpers \<Rightarrow> string \<Rightarrow> (string \<times> json) list
     \<Rightarrow> platform \<Rightarrow> (exn + (string \<times> json) list) \<times> platform" where
  "process_output process_file outputs outdir dx output results w =
     (case map_of outputs output of
        None \<Rightarrow> (Inl KeyError, w)
      | Some v \<Rightarrow>
          (let key = process_file @ ''.'' @ output
           in case (case v of
                      JList xs \<Rightarrow>
                        (case list_branch outputs outdir dx 0 xs [] w of
                           (Inl e, w1) \<Rightarrow> (Inl e, w1)
                         | (Inr l, w1) \<Rightarrow> (Inr (AList.update key (JList l) results), w1))
                    | _ \<Rightarrow> (Inr results, w)) of
                (Inl e, w1) \<Rightarrow> (Inl e, w1)
              | (Inr results1, w1) \<Rightarrow>
                  (case v of
                     JDict d \<Rightarrow>
                       (case get_modified_output d outdir dx w1 of
                          (Inl e, w2) \<Rightarrow> (Inl e, w2)
                        | (Inr r, w2) \<Rightarrow> (Inr (AList.update key r results1), w2))
                   | _ \<Rightarrow> (Inr (AList.update key v results1), w1))))"

fun for_outputs ::
  "string \<Rightarrow> (string \<times> json) list \<Rightarrow> string \<Rightarrow> helpers \<Rightarrow> string list \<Rightarrow> (string \<times> json) list
     \<Rightarrow> platform \<Rightarrow> (exn + (string \<times> json) list) \<times> platform" where
  "for_outputs process_file outputs outdir dx [] results w = (Inr results, w)"
| "for_outputs process_file outputs outdir dx (output # rest) results w =
     (case process_output process_file outputs outdir dx output results w of
        (Inl e, w1) \<Rightarrow> (Inl e, w1)
      | (Inr results1, w1) \<Rightarrow> for_outputs process_file outputs outdir dx rest results1 w1)"

text \<open>
  \<^verbatim>\<open>create_dx_output(job_id, process_file, outdir, dx)\<close>. \<^verbatim>\<open>if outputs:\<close> is false for
  \<^verbatim>\<open>None\<close> and for the empty dict.
\<close>

definition create_dx_output ::
  "string \<Rightarrow> string \<Rightarrow> string \<Rightarrow> helpers \<Rightarrow> platform \<Rightarrow> (exn + (string \<times> json) list) \<times> platform" where
  "create_dx_output job_id process_file outdir dx w =
     (case run_describe job_id w of
        (Inl e, w1) \<Rightarrow> (Inl e, w1)
      | (Inr description, w1) \<Rightarrow>
          (let outputs = desc_output description
           in if desc_state description = JStr ''done'' then
                (case outputs of
                   None \<Rightarrow> (Inr [], w1)
                 | Some kvs \<Rightarrow>
                     if kvs = [] then (Inr [], w1)
                     else for_outputs process_file kvs outdir dx (map fst kvs) [] w1)
              else (Inr [], w1)))"

section \<open>RegisteredTestFactory.py\<close>

text \<open>The classes the factory dispatches to.\<close>

datatype test_class =
    RegisteredTest
  | ExpectedFailure
  | ExpectedFailureMessage
  | ExpectedOutput
  | AnalysisFinished

definition test_type_switch :: "(string \<times> test_class) list" where
  "test_type_switch =
     [(''mock_category'', RegisteredTest),
      (''expected_failure'', ExpectedFailure),
      (''expected_failure_message'', ExpectedFailureMessage),
      (''expected_output'', ExpectedOutput),
      (''analysis_finished'', AnalysisFinished)]"

text \<open>
  \<^verbatim>\<open>str(d.keys())\<close> for keys that are plain words: each key between single quotes,
  separated by a comma and a space, inside \<^verbatim>\<open>dict_keys([\<close> and \<^verbatim>\<open>])\<close>.
\<close>

fun comma_join :: "string list \<Rightarrow> string" where
  "comma_join [] = []"
| "comma_join [k] = k"
| "comma_join (k # ks) = k @ '', '' @ comma_join ks"

definition quoted :: "string \<Rightarrow> string" where
  "quoted k = [CHR 0x27] @ k @ [CHR 0x27]"

definition dict_keys_str :: "string list \<Rightarrow> string" where
  "dict_keys_str ks = ''dict_keys(['' @ comma_join (map quoted ks) @ ''])''"

definition unknown_category_error :: "string \<Rightarrow> string" where
  "unknown_category_error category =
     ''RegisteredTestFactory.register_test(): Category '' @ category @
     '' is not recognized. Existing categories '' @
     ''are '' @ dict_keys_str (map fst test_type_switch) @
     ''. Add new category and new test implementation as a subclass of '' @
     ''`RegisteredTest`.''"

text \<open>
  \<^verbatim>\<open>RegisteredTestFactory.register_test\<close>. The constructors of the test classes are the
  parameter \<open>construct\<close>: they are the only place where the call acts on the state \<open>w\<close>
  of the platform. A class is never false, so the error is raised exactly when the lookup
  finds nothing.
\<close>

definition register_test ::
  "(test_class \<Rightarrow> string \<Rightarrow> string \<Rightarrow> string \<Rightarrow> 'c \<Rightarrow> 'w \<Rightarrow> (exn + 't) \<times> 'w)
     \<Rightarrow> string \<Rightarrow> string \<Rightarrow> string \<Rightarrow> 'c \<Rightarrow> 'w \<Rightarrow> (exn + 't) \<times> 'w" where
  "register_test construct src_file category test_name context w =
     (case map_of test_type_switch category of
        None \<Rightarrow> (Inl (RegisteredTestError (unknown_category_error category)), w)
      | Some registered_test \<Rightarrow> construct registered_test src_file category test_name context w)"

section \<open>ExternExpectedOutput.py\<close>

subsection \<open>Test instance, context and platform state\<close>

text \<open>
  The attributes of the execution context that the class reads. The lock and the state of
  the platform are in the record \<open>harness\<close> below.
\<close>

record exec_context =
  repo_root_dir :: string
  ctx_version :: string
  platform_build_dir :: string
  project_id :: string

text \<open>
  An attribute that holds a path is a string or, as the constructor below makes it, a tuple
  of strings.
\<close>

datatype pathlike = PathStr string | PathTuple "string list"

datatype pyval = PyBool bool | PyStr string

record extern_test =
  test_context :: exec_context
  compiler_jar_path :: string
  applet_folder :: string
  extern_path :: pathlike
  test_results :: "pyval set option"

text \<open>
  \<^verbatim>\<open>ExternExpectedOutput.__init__\<close>, after the inherited constructor: the third
  assignment ends in a comma inside the parentheses, so \<^verbatim>\<open>_extern_path\<close> is a tuple
  with one element. \<open>test_results\<close> is \<open>None\<close> until this class assigns it.
\<close>

definition extern_init :: "exec_context \<Rightarrow> extern_test" where
  "extern_init ctx =
     \<lparr>test_context = ctx,
      compiler_jar_path = path_join (repo_root_dir ctx) [''dxCompiler-'' @ ctx_version ctx @ ''.jar''],
      applet_folder = path_join (platform_build_dir ctx) [''extern_applets''],
      extern_path =
        PathTuple [path_join (repo_root_dir ctx)
                     [''dxcint/resources/extern_expected_output/dx_extern.wdl'']],
      test_results = None\<rparr>"

text \<open>
  The shared state: whether the context lock is held, the local paths that exist, the
  applets on the platform as (project, folder, name), and the commands started so far.
  The environment is \<open>dxpy_error\<close>, the error the platform API answers a search with, if
  any, and \<open>run_result\<close>, the exit status and captured output of the command started as the
  \<open>n\<close>-th one (\<open>None\<close>: the program cannot be started). Messages sent to the logger are
  not part of the state.
\<close>

record harness =
  lock_held :: bool
  local_paths :: "string set"
  applets :: "(string \<times> string \<times> string) set"
  dxpy_error :: "exn option"
  run_result :: "nat \<Rightarrow> string list \<Rightarrow> (int \<times> string) option"
  issued :: "string list list"

text \<open>
  \<^verbatim>\<open>os.path.exists\<close> passes its argument to \<^verbatim>\<open>os.stat\<close> and turns an \<^verbatim>\<open>OSError\<close>
  or a \<^verbatim>\<open>ValueError\<close> into \<^verbatim>\<open>False\<close>; for a tuple \<^verbatim>\<open>os.stat\<close> raises a
  \<^verbatim>\<open>TypeError\<close>, which passes through.
\<close>

definition os_path_exists :: "pathlike \<Rightarrow> harness \<Rightarrow> exn + bool" where
  "os_path_exists p w =
     (case p of PathTuple t \<Rightarrow> Inl TypeError | PathStr s \<Rightarrow> Inr (s \<in> local_paths w))"

text \<open>\<^verbatim>\<open>list(dxpy.bindings.search.find_data_objects(classname="applet", ...))\<close>.\<close>

definition find_data_objects :: "string \<Rightarrow> string \<Rightarrow> string \<Rightarrow> harness \<Rightarrow> exn + string list" where
  "find_data_objects nm folder project w =
     (case dxpy_error w of
        Some e \<Rightarrow> Inl e
      | None \<Rightarrow> Inr (if (project, folder, nm) \<in> applets w then [nm] else []))"

text \<open>
  \<^verbatim>\<open>subprocess.check_output(cmd)\<close>: as \<^verbatim>\<open>check_call\<close>, but the standard output is
  captured, returned, and attached to the \<^verbatim>\<open>CalledProcessError\<close>.
\<close>

definition check_output :: "string list \<Rightarrow> harness \<Rightarrow> (exn + string) \<times> harness" where
  "check_output cmd w =
     (case run_result w (length (issued w)) cmd of
        None \<Rightarrow> (Inl OSError, w)
      | Some (rc, out) \<Rightarrow>
          if rc = 0 then (Inr out, w\<lparr>issued := issued w @ [cmd]\<rparr>)
          else (Inl (CalledProcessError rc cmd (Some out) None), w\<lparr>issued := issued w @ [cmd]\<rparr>))"

subsection \<open>The setup of the native applets and of the extern file\<close>

definition native_applets :: "string list" where
  "native_applets =
     [''native_concat'', ''native_diff'', ''native_mk_list'', ''native_sum'', ''native_sum_012'']"

definition build_cmdline :: "extern_test \<Rightarrow> string \<Rightarrow> string list" where
  "build_cmdline self napl =
     [''dx'', ''build'',
      path_join (repo_root_dir (test_context self)) [''dxcint/dependencies/applets/'' @ napl],
      ''--destination'',
      project_id (test_context self) @ '':'' @ applet_folder self @ ''/'']"

text \<open>
  The loop of \<^verbatim>\<open>_native_call_setup\<close>: an applet that the search does not find is built,
  after which it is on the platform.
\<close>

fun build_missing :: "extern_test \<Rightarrow> string list \<Rightarrow> harness \<Rightarrow> (exn + unit) \<times> harness" where
  "build_missing self [] w = (Inr (), w)"
| "build_missing self (napl # rest) w =
     (case find_data_objects napl (applet_folder self) (project_id (test_context self)) w of
        Inl e \<Rightarrow> (Inl e, w)
      | Inr applet \<Rightarrow>
          if length applet = 0 then
            (case check_output (build_cmdline self napl) w of
               (Inl e, w1) \<Rightarrow> (Inl e, w1)
             | (Inr out, w1) \<Rightarrow>
                 build_missing self rest
                   (w1\<lparr>applets := insert (project_id (test_context self), applet_folder self, napl)
                                     (applets w1)\<rparr>))
          else build_missing self rest w)"

definition cmdline_common :: "extern_test \<Rightarrow> string list" where
  "cmdline_common self =
     [''java'', ''-jar'', compiler_jar_path self, ''dxni'', ''-force'',
      ''-folder'', applet_folder self, ''-project'', project_id (test_context self)]"

text \<open>
  \<^verbatim>\<open>native_call_dxni\<close>: \<^verbatim>\<open>" ".join(cmdline_v1)\<close> raises a \<^verbatim>\<open>TypeError\<close> when the last
  item is not a string. A successful run writes the extern file.
\<close>

definition native_call_dxni :: "extern_test \<Rightarrow> harness \<Rightarrow> (exn + unit) \<times> harness" where
  "native_call_dxni self w =
     (case extern_path self of
        PathTuple t \<Rightarrow> (Inl TypeError, w)
      | PathStr p \<Rightarrow>
          (case check_output (cmdline_common self @ [''-language'', ''wdl_v1.0'', ''-output'', p]) w of
             (Inl e, w1) \<Rightarrow> (Inl e, w1)
           | (Inr out, w1) \<Rightarrow> (Inr (), w1\<lparr>local_paths := insert p (local_paths w1)\<rparr>)))"

definition native_call_setup :: "extern_test \<Rightarrow> harness \<Rightarrow> (exn + unit) \<times> harness" where
  "native_call_setup self w =
     (case build_missing self native_applets w of
        (Inl e, w1) \<Rightarrow> (Inl e, w1)
      | (Inr u, w1) \<Rightarrow> native_call_dxni self w1)"

subsection \<open>_compile_executable\<close>

text \<open>The statements inside \<^verbatim>\<open>with self.context.lock:\<close>, run while the lock is held.\<close>

definition guarded_setup :: "extern_test \<Rightarrow> harness \<Rightarrow> (exn + unit) \<times> harness" where
  "guarded_setup self w =
     (case os_path_exists (extern_path self) w of
        Inl e \<Rightarrow> (Inl e, w)
      | Inr True \<Rightarrow> (Inr (), w)
      | Inr False \<Rightarrow> native_call_setup self w)"

definition error_creating_extern :: "pyval set" where
  "error_creating_extern = {PyBool False, PyStr ''Error creating extern''}"

text \<open>
  \<^verbatim>\<open>ExternExpectedOutput._compile_executable\<close>. \<open>super_compile\<close> is the inherited
  \<^verbatim>\<open>ExpectedOutput._compile_executable\<close> with its arguments. Entering the \<^verbatim>\<open>with\<close>
  block takes the lock, and a caller that finds it held waits: in a run of this caller alone
  the call then never returns, which is the value \<open>None\<close>. Leaving the block, by its end or
  by an exception, releases the lock. The handler of \<^verbatim>\<open>Exception\<close> stores the set
  \<^verbatim>\<open>{False, "Error creating extern"}\<close>.
\<close>

definition compile_executable ::
  "(extern_test \<Rightarrow> harness \<Rightarrow> (exn + string) \<times> harness) \<Rightarrow> extern_test \<Rightarrow> harness
     \<Rightarrow> ((exn + string) \<times> harness) option" where
  "compile_executable super_compile self w =
     (if lock_held w then None
      else
        (case guarded_setup self (w\<lparr>lock_held := True\<rparr>) of
           (Inl e, w1) \<Rightarrow>
             Some (super_compile (self\<lparr>test_results := Some error_creating_extern\<rparr>)
                     (w1\<lparr>lock_held := False\<rparr>))
         | (Inr u, w1) \<Rightarrow> Some (super_compile self (w1\<lparr>lock_held := False\<rparr>))))"

subsection \<open>Callers that share one context\<close>

text \<open>
  Each caller runs \<^verbatim>\<open>_compile_executable\<close> on its own test instance up to the end of
  the \<^verbatim>\<open>with\<close> block: it waits for the lock, takes it when it is free, runs the guarded
  statements and releases it. The callers' steps interleave in any order.
\<close>

datatype pc = Waiting | Holding | Finished

inductive step ::
  "('t \<Rightarrow> extern_test) \<Rightarrow> ('t \<Rightarrow> pc) \<times> harness \<Rightarrow> ('t \<Rightarrow> pc) \<times> harness \<Rightarrow> bool"
  for tests :: "'t \<Rightarrow> extern_test" where
  acquire:
    "pcs t = Waiting \<Longrightarrow> \<not> lock_held w \<Longrightarrow>
       step tests (pcs, w) (pcs(t := Holding), w\<lparr>lock_held := True\<rparr>)"
| release:
    "pcs t = Holding \<Longrightarrow>
       step tests (pcs, w)
         (pcs(t := Finished), (snd (guarded_setup (tests t) w))\<lparr>lock_held := False\<rparr>)"

section \<open>Concrete inputs\<close>

text \<open>A dependency, and a local file system with the given directories and no files in
  which every command exits with the given status.\<close>

definition example_dependency :: dependency where
  "example_dependency =
     \<lparr>dep_root = ''/deps'', dep_name = ''cwltool'', dep_languages = Some [''cwl''],
      dep_version = ''3.1'', dep_source_link = ''https://example.org/cwltool'',
      dep_package_manager = None\<rparr>"

definition example_world :: "string set \<Rightarrow> int \<Rightarrow> world" where
  "example_world ds rc =
     \<lparr>dirs = ds, files = (\<lambda>p. None), modes = (\<lambda>p. None),
      exit_status = (\<lambda>n cmd. Some rc), calls = [], printed = []\<rparr>"

text \<open>Whether a result is a raised \<^verbatim>\<open>DependencyError\<close>.\<close>

definition raises_DependencyError :: "exn + 'a \<Rightarrow> bool" where
  "raises_DependencyError r = (case r of Inl (DependencyError m) \<Rightarrow> True | _ \<Rightarrow> False)"

text \<open>
  Whether a result is a raised \<^verbatim>\<open>CalledProcessError\<close> with the given return code and
  command.
\<close>

definition raises_CalledProcessError :: "int \<Rightarrow> string list \<Rightarrow> exn + 'a \<Rightarrow> bool" where
  "raises_CalledProcessError rc cmd r =
     (case r of
        Inl (CalledProcessError rc' cmd' out err) \<Rightarrow> rc' = rc \<and> cmd' = cmd
      | _ \<Rightarrow> False)"

text \<open>
  Helpers that name a file after its id inside the output directory and whose checksum text
  is a tag followed by the reversed bytes, and a platform that knows the job \<^verbatim>\<open>job-1\<close>
  with the given state and outputs and the file \<^verbatim>\<open>file-1\<close> holding \<^verbatim>\<open>hello\<close>.
\<close>

definition example_helpers :: helpers where
  "example_helpers =
     \<lparr>get_file_name =
        (\<lambda>outdir file_id. case file_id of JStr s \<Rightarrow> outdir @ ''/'' @ s | _ \<Rightarrow> outdir @ ''/file''),
      checksum_of = (\<lambda>bytes. ''sha1$'' @ rev bytes)\<rparr>"

definition example_platform :: "json \<Rightarrow> (string \<times> json) list option \<Rightarrow> platform" where
  "example_platform st out =
     \<lparr>describe =
        (\<lambda>job_id. if job_id = ''job-1'' then Some \<lparr>desc_state = st, desc_output = out\<rparr> else None),
      remote_files = (\<lambda>file_id. if file_id = JStr ''file-1'' then Some ''hello'' else None),
      local_files = (\<lambda>p. None),
      commands = []\<rparr>"

definition file_ref :: json where
  "file_ref = JDict [(''$dnanexus_link'', JStr ''file-1'')]"

text \<open>
  The list branch as the specification words it, for comparison with \<open>list_branch\<close>: the
  transform of \<open>get_modified_output\<close> applied to each element of the output's own list,
  in order.
\<close>

fun spec_list_output ::
  "json list \<Rightarrow> string \<Rightarrow> helpers \<Rightarrow> platform \<Rightarrow> (exn + json list) \<times> platform" where
  "spec_list_output [] outdir dx w = (Inr [], w)"
| "spec_list_output (JDict d # rest) outdir dx w =
     (case get_modified_output d outdir dx w of
        (Inl e, w1) \<Rightarrow> (Inl e, w1)
      | (Inr r, w1) \<Rightarrow>
          (case spec_list_output rest outdir dx w1 of
             (Inl e, w2) \<Rightarrow> (Inl e, w2)
           | (Inr rs, w2) \<Rightarrow> (Inr (r # rs), w2)))"
| "spec_list_output (v # rest) outdir dx w = (Inl AttributeError, w)"

text \<open>
  A constructor that returns the class it was called for and counts each call in the state.
\<close>

definition counting_construct ::
  "test_class \<Rightarrow> string \<Rightarrow> string \<Rightarrow> string \<Rightarrow> unit \<Rightarrow> nat \<Rightarrow> (exn + test_class) \<times> nat" where
  "counting_construct cls src_file category test_name ctx w = (Inr cls, Suc w)"

text \<open>
  An execution context; a shared state with the lock free, no extern file, no applet on the
  platform, every command succeeding, and the given answer of the platform API; an
  inherited compile step whose result tells whether \<open>test_results\<close> was assigned; and
  the path of the extern file as a string.
\<close>

definition example_context :: exec_context where
  "example_context =
     \<lparr>repo_root_dir = ''/repo'', ctx_version = ''2.11.0'', platform_build_dir = ''/builds/test'',
      project_id = ''project-1''\<rparr>"

definition example_harness :: "exn option \<Rightarrow> harness" where
  "example_harness e =
     \<lparr>lock_held = False, local_paths = {}, applets = {}, dxpy_error = e,
      run_result = (\<lambda>n cmd. Some (0, [])), issued = []\<rparr>"

definition example_super :: "extern_test \<Rightarrow> harness \<Rightarrow> (exn + string) \<times> harness" where
  "example_super self w =
     (Inr (if test_results self = None then ''applet-1'' else ''applet-1 after an error''), w)"

definition example_extern_file :: string where
  "example_extern_file = ''/repo/dxcint/resources/extern_expected_output/dx_extern.wdl''"

section \<open>Properties of the dependency resolver\<close>

lemma example_local_dir:
  "local_dependency_dir example_dependency = ''/deps/cwltool/3.1/cwltool''"
  by (simp add: local_dependency_dir_def example_dependency_def path_join_def join_step_def)

lemma example_download_cmd:
  "download_cmd example_dependency =
     [''wget'', ''https://example.org/cwltool'', ''-O'', ''/deps/cwltool/3.1/cwltool'']"
  by (simp add: download_cmd_def example_local_dir) (simp add: example_dependency_def)

lemma example_prefixes:
  "path_prefixes ''/deps/cwltool/3.1/cwltool'' =
     [''/deps'', ''/deps/cwltool'', ''/deps/cwltool/3.1'']"
  by (simp add: path_prefixes_def upt_rec)

lemmas example_defs = get_exec_def Let_def example_local_dir path_exists_def makedirs_def
  example_prefixes check_call_def example_world_def chmod_def print_opt_def

text \<open>What a successful \<open>makedirs\<close> changes: the directories only, and the target is one.\<close>

lemma makedirs_dirs:
  "makedirs p w = Inr w1 \<Longrightarrow>
     p \<in> dirs w1 \<and> calls w1 = calls w \<and> exit_status w1 = exit_status w \<and>
     printed w1 = printed w \<and> files w1 = files w"
  by (auto simp: makedirs_def split: if_splits)

text \<open>The run of \<open>get_exec\<close> when the path is absent and the download command fails.\<close>

lemma get_exec_failed_download:
  assumes "\<not> path_exists w (local_dependency_dir self)"
    and "makedirs (local_dependency_dir self) w = Inr w1"
    and "exit_status w (length (calls w)) (download_cmd self) = Some rc"
    and "rc \<noteq> 0"
  shows "get_exec self w =
           (Inl (CalledProcessError rc (download_cmd self) None None),
            print_opt None (print_opt None (w1\<lparr>calls := calls w1 @ [download_cmd self]\<rparr>)))"
  using assms makedirs_dirs[OF assms(2)]
  by (simp add: get_exec_def Let_def check_call_def)



lemma example_makedirs:
  "makedirs (local_dependency_dir example_dependency) (example_world {''/deps''} rc) =
     Inr ((example_world {''/deps''} rc)
            \<lparr>dirs := {''/deps''} \<union> set (path_prefixes ''/deps/cwltool/3.1/cwltool'') \<union>
                      {''/deps/cwltool/3.1/cwltool''}\<rparr>)"
  by (simp add: makedirs_def example_local_dir example_prefixes) (simp add: example_world_def)

text \<open>
  Claim C3, as the specification states it: a failed download raises a
  \<^verbatim>\<open>DependencyError\<close>. It does not: with the path absent and the command exiting with
  status 1, the exception that leaves \<open>get_exec\<close> is the \<^verbatim>\<open>CalledProcessError\<close> of the
  command.
\<close>

theorem get_exec_dependency_error_counterexample:
  "\<not> path_exists (example_world {''/deps''} 1) (local_dependency_dir example_dependency) \<and>
   exit_status (example_world {''/deps''} 1) 0 (download_cmd example_dependency) = Some 1 \<and>
   raises_CalledProcessError 1 (download_cmd example_dependency)
     (fst (get_exec example_dependency (example_world {''/deps''} 1))) \<and>
   \<not> raises_DependencyError (fst (get_exec example_dependency (example_world {''/deps''} 1)))"
  by (simp add: example_defs raises_DependencyError_def raises_CalledProcessError_def)

text \<open>
  Claim C3, amended. If the local path does not exist, its directories can be created, and
  the download command exits with a non-zero status \<open>rc\<close>, then \<open>get_exec\<close> fails with
  the \<^verbatim>\<open>CalledProcessError\<close> of that command, which carries \<open>rc\<close> and the command
  line; it is not a \<^verbatim>\<open>DependencyError\<close>.
\<close>

theorem get_exec_download_failure:
  assumes "\<not> path_exists w (local_dependency_dir self)"
    and "makedirs (local_dependency_dir self) w = Inr w1"
    and "exit_status w (length (calls w)) (download_cmd self) = Some rc"
    and "rc \<noteq> 0"
  shows "raises_CalledProcessError rc (download_cmd self) (fst (get_exec self w)) \<and>
         \<not> raises_DependencyError (fst (get_exec self w))"
  using get_exec_failed_download[OF assms]
  by (simp add: raises_CalledProcessError_def raises_DependencyError_def)

theorem get_exec_download_failure_witness:
  "\<not> path_exists (example_world {''/deps''} 8) (local_dependency_dir example_dependency) \<and>
   exit_status (example_world {''/deps''} 8) (length (calls (example_world {''/deps''} 8)))
     (download_cmd example_dependency) = Some 8 \<and>
   (8::int) \<noteq> 0 \<and>
   raises_CalledProcessError 8
     [''wget'', ''https://example.org/cwltool'', ''-O'', ''/deps/cwltool/3.1/cwltool'']
     (fst (get_exec example_dependency (example_world {''/deps''} 8))) \<and>
   \<not> raises_DependencyError (fst (get_exec example_dependency (example_world {''/deps''} 8)))"
proof -
  let ?W = "example_world {''/deps''} 8"
  have absent: "\<not> path_exists ?W (local_dependency_dir example_dependency)"
    by (simp add: example_defs)
  have status: "exit_status ?W (length (calls ?W)) (download_cmd example_dependency) = Some 8"
    by (simp add: example_world_def)
  have nonzero: "(8::int) \<noteq> 0" by simp
  from get_exec_download_failure[OF absent example_makedirs status nonzero]
  show ?thesis
    using absent status by (simp only: example_download_cmd simp_thms)
qed

text \<open>
  Claim C9. Resolving is not atomic when the download fails. With the path absent, the
  directories creatable and the download command exiting with a non-zero status, the state
  \<open>w1\<close> in which the command runs already has a directory at the full local path; the call
  fails after starting that one command; the path exists in the state the call leaves; and a
  further call returns the path and changes nothing, so it starts no download, and neither
  does any call after it.
\<close>

theorem get_exec_not_atomic:
  assumes "\<not> path_exists w (local_dependency_dir self)"
    and "makedirs (local_dependency_dir self) w = Inr w1"
    and "exit_status w (length (calls w)) (download_cmd self) = Some rc"
    and "rc \<noteq> 0"
  shows "local_dependency_dir self \<in> dirs w1 \<and>
         fst (get_exec self w) = Inl (CalledProcessError rc (download_cmd self) None None) \<and>
         calls (snd (get_exec self w)) = calls w @ [download_cmd self] \<and>
         path_exists (snd (get_exec self w)) (local_dependency_dir self) \<and>
         get_exec self (snd (get_exec self w)) =
           (Inr (local_dependency_dir self), snd (get_exec self w))"
  using get_exec_failed_download[OF assms] makedirs_dirs[OF assms(2)]
  by (simp add: print_opt_def get_exec_def path_exists_def)

theorem get_exec_not_atomic_witness:
  "\<not> path_exists (example_world {''/deps''} 4) (local_dependency_dir example_dependency) \<and>
   exit_status (example_world {''/deps''} 4) (length (calls (example_world {''/deps''} 4)))
     (download_cmd example_dependency) = Some 4 \<and>
   (4::int) \<noteq> 0 \<and>
   fst (get_exec example_dependency (example_world {''/deps''} 4)) =
     Inl (CalledProcessError 4 (download_cmd example_dependency) None None) \<and>
   calls (snd (get_exec example_dependency (example_world {''/deps''} 4))) =
     [download_cmd example_dependency] \<and>
   path_exists (snd (get_exec example_dependency (example_world {''/deps''} 4)))
     ''/deps/cwltool/3.1/cwltool'' \<and>
   fst (get_exec example_dependency (snd (get_exec example_dependency (example_world {''/deps''} 4)))) =
     Inr ''/deps/cwltool/3.1/cwltool'' \<and>
   calls (snd (get_exec example_dependency (snd (get_exec example_dependency (example_world {''/deps''} 4))))) =
     [download_cmd example_dependency]"
proof -
  let ?W = "example_world {''/deps''} 4"
  have absent: "\<not> path_exists ?W (local_dependency_dir example_dependency)"
    by (simp add: example_defs)
  have status: "exit_status ?W (length (calls ?W)) (download_cmd example_dependency) = Some 4"
    by (simp add: example_world_def)
  have nonzero: "(4::int) \<noteq> 0" by simp
  have empty: "calls ?W = []" by (simp add: example_world_def)
  note run = get_exec_not_atomic[OF absent example_makedirs status nonzero]
  have second: "get_exec example_dependency (snd (get_exec example_dependency ?W)) =
      (Inr (local_dependency_dir example_dependency), snd (get_exec example_dependency ?W))"
    using run by blast
  have second_fst: "fst (get_exec example_dependency (snd (get_exec example_dependency ?W))) =
      Inr ''/deps/cwltool/3.1/cwltool''"
    by (simp only: second fst_conv example_local_dir)
  have second_calls: "calls (snd (get_exec example_dependency (snd (get_exec example_dependency ?W)))) =
      [download_cmd example_dependency]"
    using run by (simp only: second snd_conv empty append_Nil)
  show ?thesis
    using run absent status second_fst second_calls
    by (simp only: example_local_dir empty append_Nil simp_thms)
qed

text \<open>\<open>endswith\<close> is the suffix relation on strings.\<close>

lemma endswith_suffix: "endswith s suf \<longleftrightarrow> suffix suf s"
proof
  assume "endswith s suf"
  then have "s = take (length s - length suf) s @ suf"
    by (metis append_take_drop_id endswith_def)
  then show "suffix suf s" by (metis suffixI)
next
  assume "suffix suf s"
  then obtain zs where "s = zs @ suf" by (auto simp: suffix_def)
  then show "endswith s suf" by (simp add: endswith_def)
qed

text \<open>
  Claim C7. For every home directory whose string form does not end with
  \<^verbatim>\<open>home/dnanexus\<close>, \<open>update_dot_env\<close> raises a \<^verbatim>\<open>DependencyError\<close> that quotes the
  path, and the state, with every file in it, is as before. The empty string and a path
  with a separator after the suffix are such inputs.
\<close>

theorem update_dot_env_rejects:
  "\<not> suffix ''home/dnanexus'' home_dir \<Longrightarrow>
     update_dot_env self home_dir w = (Inl (DependencyError (dot_env_error home_dir)), w)"
  by (simp add: update_dot_env_def endswith_suffix)

theorem update_dot_env_rejects_witness:
  "\<not> suffix ''home/dnanexus'' '''' \<and>
   update_dot_env example_dependency '''' (example_world {''/assets/home/dnanexus''} 0) =
     (Inl (DependencyError (dot_env_error '''')), example_world {''/assets/home/dnanexus''} 0) \<and>
   \<not> suffix ''home/dnanexus'' ''/assets/home/dnanexus/'' \<and>
   update_dot_env example_dependency ''/assets/home/dnanexus/'' (example_world {''/assets/home/dnanexus''} 0) =
     (Inl (DependencyError (dot_env_error ''/assets/home/dnanexus/'')),
      example_world {''/assets/home/dnanexus''} 0)"
proof -
  have empty: "\<not> suffix ''home/dnanexus'' ''''"
    by simp
  have trailing: "\<not> suffix ''home/dnanexus'' ''/assets/home/dnanexus/''"
    by (simp add: endswith_suffix[symmetric] endswith_def)
  show ?thesis
    using update_dot_env_rejects[OF empty, of example_dependency "example_world {''/assets/home/dnanexus''} 0"]
          update_dot_env_rejects[OF trailing, of example_dependency "example_world {''/assets/home/dnanexus''} 0"]
          empty trailing
    by (simp only: simp_thms)
qed

text \<open>A home directory with the suffix is accepted, and the line is appended.\<close>

lemma update_dot_env_accepts_example:
  "fst (update_dot_env example_dependency ''/assets/home/dnanexus'' (example_world {''/assets/home/dnanexus''} 0)) = Inr True \<and>
   files (snd (update_dot_env example_dependency ''/assets/home/dnanexus'' (example_world {''/assets/home/dnanexus''} 0)))
     ''/assets/home/dnanexus/.env'' = Some (''cwltool=3.1'' @ [CHR 0x0A])"
  by (simp add: update_dot_env_def endswith_def Let_def path_join_def join_step_def example_world_def example_dependency_def)

section \<open>Properties of the output formatter\<close>

text \<open>
  Claim C5. For a job whose description has a state other than \<^verbatim>\<open>"done"\<close>,
  \<open>create_dx_output\<close> returns the empty record, whatever the output field holds; the only
  command it runs is the describe command.
\<close>

theorem create_dx_output_not_done:
  "describe w job_id = Some description \<Longrightarrow> desc_state description \<noteq> JStr ''done'' \<Longrightarrow>
     create_dx_output job_id process_file outdir dx w =
       (Inr [], w\<lparr>commands := commands w @ [DxDescribe job_id]\<rparr>)"
  by (simp add: create_dx_output_def run_describe_def Let_def)

theorem create_dx_output_not_done_witness:
  "describe (example_platform (JStr ''running'') (Some [(''out'', file_ref)])) ''job-1'' =
     Some \<lparr>desc_state = JStr ''running'', desc_output = Some [(''out'', file_ref)]\<rparr> \<and>
   desc_state \<lparr>desc_state = JStr ''running'', desc_output = Some [(''out'', file_ref)]\<rparr> \<noteq> JStr ''done'' \<and>
   fst (create_dx_output ''job-1'' ''proc'' ''/out'' example_helpers
          (example_platform (JStr ''running'') (Some [(''out'', file_ref)]))) = Inr [] \<and>
   commands (snd (create_dx_output ''job-1'' ''proc'' ''/out'' example_helpers
          (example_platform (JStr ''running'') (Some [(''out'', file_ref)])))) = [DxDescribe ''job-1'']"
proof -
  let ?W = "example_platform (JStr ''running'') (Some [(''out'', file_ref)])"
  let ?d = "\<lparr>desc_state = JStr ''running'', desc_output = Some [(''out'', file_ref)]\<rparr>"
  have d: "describe ?W ''job-1'' = Some ?d"
    by (simp add: example_platform_def)
  have s: "desc_state ?d \<noteq> JStr ''done''"
    by simp
  have c: "commands ?W = []"
    by (simp add: example_platform_def)
  from create_dx_output_not_done[OF d s, of "''proc''" "''/out''" example_helpers]
  have "create_dx_output ''job-1'' ''proc'' ''/out'' example_helpers ?W = (Inr [], ?W\<lparr>commands := commands ?W @ [DxDescribe ''job-1'']\<rparr>)" .
  then have "fst (create_dx_output ''job-1'' ''proc'' ''/out'' example_helpers ?W) = Inr []"
    and "commands (snd (create_dx_output ''job-1'' ''proc'' ''/out'' example_helpers ?W)) = [DxDescribe ''job-1'']"
    using c by simp_all
  with d s show ?thesis by (simp only: simp_thms)
qed

text \<open>
  Claim C6. For a job in state \<^verbatim>\<open>"done"\<close> with the outputs \<open>a\<close>, the number 5, and
  \<open>b\<close>, a dict whose first value is the id of a file the platform can deliver,
  \<open>create_dx_output\<close> returns the record that maps \<^verbatim>\<open><process>.a\<close> to 5 and
  \<^verbatim>\<open><process>.b\<close> to the dict of class \<^verbatim>\<open>File\<close>, the checksum of the downloaded
  bytes, the path that \<open>get_file_name\<close> gives for the output directory and the file id,
  and the number of bytes; the bytes are at that path afterwards.
\<close>

theorem create_dx_output_scalar_and_file:
  assumes "describe w job_id = Some description"
    and "desc_state description = JStr ''done''"
    and "desc_output description = Some [(''a'', JInt 5), (''b'', JDict ((k, file_id) # rest))]"
    and "remote_files w file_id = Some bytes"
  shows "fst (create_dx_output job_id process_file outdir dx w) =
           Inr [(process_file @ ''.a'', JInt 5),
                (process_file @ ''.b'',
                 JDict [(''class'', JStr ''File''),
                        (''checksum'', JStr (checksum_of dx bytes)),
                        (''location'', JStr (get_file_name dx outdir file_id)),
                        (''size'', JInt (int (length bytes)))])] \<and>
         local_files (snd (create_dx_output job_id process_file outdir dx w))
           (get_file_name dx outdir file_id) = Some bytes \<and>
         commands (snd (create_dx_output job_id process_file outdir dx w)) =
           commands w @ [DxDescribe job_id, DxDownload file_id (get_file_name dx outdir file_id)]"
  using assms
  by (simp add: create_dx_output_def run_describe_def run_download_def process_output_def
        get_modified_output_def Let_def)

theorem create_dx_output_scalar_and_file_witness:
  "describe (example_platform (JStr ''done'') (Some [(''a'', JInt 5), (''b'', JDict [(''$dnanexus_link'', JStr ''file-1'')])])) ''job-1'' =
     Some \<lparr>desc_state = JStr ''done'', desc_output = Some [(''a'', JInt 5), (''b'', JDict [(''$dnanexus_link'', JStr ''file-1'')])]\<rparr> \<and>
   remote_files (example_platform (JStr ''done'') (Some [(''a'', JInt 5), (''b'', JDict [(''$dnanexus_link'', JStr ''file-1'')])])) (JStr ''file-1'') = Some ''hello'' \<and>
   fst (create_dx_output ''job-1'' ''proc'' ''/out'' example_helpers
          (example_platform (JStr ''done'') (Some [(''a'', JInt 5), (''b'', JDict [(''$dnanexus_link'', JStr ''file-1'')])]))) =
     Inr [(''proc.a'', JInt 5),
          (''proc.b'', JDict [(''class'', JStr ''File''), (''checksum'', JStr ''sha1$olleh''),
                              (''location'', JStr ''/out/file-1''), (''size'', JInt 5)])]"
proof -
  let ?out = "Some [(''a'', JInt 5), (''b'', JDict [(''$dnanexus_link'', JStr ''file-1'')])]"
  let ?W = "example_platform (JStr ''done'') ?out"
  let ?d = "\<lparr>desc_state = JStr ''done'', desc_output = ?out\<rparr>"
  have d: "describe ?W ''job-1'' = Some ?d"
    by (simp add: example_platform_def)
  have s: "desc_state ?d = JStr ''done''" by simp
  have out: "desc_output ?d = ?out" by simp
  have r: "remote_files ?W (JStr ''file-1'') = Some ''hello''"
    by (simp add: example_platform_def)
  from create_dx_output_scalar_and_file[OF d s out r, of "''proc''" "''/out''" example_helpers]
  have "fst (create_dx_output ''job-1'' ''proc'' ''/out'' example_helpers ?W) =
     Inr [(''proc.a'', JInt 5),
          (''proc.b'', JDict [(''class'', JStr ''File''), (''checksum'', JStr ''sha1$olleh''),
                              (''location'', JStr ''/out/file-1''), (''size'', JInt 5)])]"
    by (simp add: example_helpers_def)
  with d r show ?thesis by (simp only: simp_thms)
qed

text \<open>
  A list value. The first round of the inner loop indexes the dict of outputs by itself,
  which raises a \<^verbatim>\<open>TypeError\<close> before anything is downloaded; only the empty list
  passes, and is stored as it is.
\<close>

lemma process_output_nonempty_list:
  "map_of outputs output = Some (JList (x # xs)) \<Longrightarrow>
     process_output process_file outputs outdir dx output results w = (Inl TypeError, w)"
  by (simp add: process_output_def dict_getitem_def)

lemma process_output_empty_list:
  "map_of outputs output = Some (JList []) \<Longrightarrow>
     process_output process_file outputs outdir dx output results w =
       (Inr (AList.update (process_file @ ''.'' @ output) (JList []) results), w)"
  by (simp add: process_output_def)

text \<open>
  Claim C2 at the job whose only output \<open>out\<close> is a list with one file reference: the
  per-element transform gives the list with the file's description, while
  \<open>create_dx_output\<close> raises a \<^verbatim>\<open>TypeError\<close> and has run the describe command only.
\<close>

theorem create_dx_output_list_output:
  "spec_list_output [file_ref] ''/out'' example_helpers
     ((example_platform (JStr ''done'') (Some [(''out'', JList [file_ref])]))
        \<lparr>commands := [DxDescribe ''job-1'']\<rparr>) =
   (Inr [JDict [(''class'', JStr ''File''), (''checksum'', JStr ''sha1$olleh''),
                (''location'', JStr ''/out/file-1''), (''size'', JInt 5)]],
    (example_platform (JStr ''done'') (Some [(''out'', JList [file_ref])]))
      \<lparr>commands := [DxDescribe ''job-1'', DxDownload (JStr ''file-1'') ''/out/file-1''],
       local_files := (\<lambda>p. None)(''/out/file-1'' \<mapsto> ''hello'')\<rparr>) \<and>
   create_dx_output ''job-1'' ''proc'' ''/out'' example_helpers
     (example_platform (JStr ''done'') (Some [(''out'', JList [file_ref])])) =
   (Inl TypeError,
    (example_platform (JStr ''done'') (Some [(''out'', JList [file_ref])]))
      \<lparr>commands := [DxDescribe ''job-1'']\<rparr>)"
  by (simp add: create_dx_output_def run_describe_def process_output_def dict_getitem_def
        example_platform_def file_ref_def get_modified_output_def run_download_def
        example_helpers_def Let_def)

section \<open>Properties of the test factory\<close>

text \<open>A key of the table occurs, between quotes, in the text of the table's keys.\<close>

lemma sublist_in_append: "sublist xs ys \<Longrightarrow> sublist xs (ps @ ys @ ss)"
  by (auto simp: sublist_def) (metis append.assoc)

lemma sublist_comma_join: "k \<in> set ks \<Longrightarrow> sublist k (comma_join ks)"
proof (induction ks rule: comma_join.induct)
  case 1
  then show ?case by simp
next
  case (2 k')
  then show ?case by simp
next
  case (3 k' v va)
  show ?case
  proof (cases "k = k'")
    case True
    then show ?thesis by simp
  next
    case False
    with 3 have "sublist k (comma_join (v # va))" by simp
    then have "sublist k ((k' @ '', '') @ comma_join (v # va) @ [])"
      by (rule sublist_in_append)
    then show ?thesis by simp
  qed
qed

lemma sublist_dict_keys_str: "k \<in> set ks \<Longrightarrow> sublist (quoted k) (dict_keys_str ks)"
  unfolding dict_keys_str_def
  by (rule sublist_in_append) (simp add: sublist_comma_join)

text \<open>
  Claim C4. For every category that is not a key of \<open>test_type_switch\<close>,
  \<open>register_test\<close> raises a \<^verbatim>\<open>RegisteredTestError\<close> without calling a constructor,
  so the state is as before; the text of the error contains the requested category and
  every valid category.
\<close>

theorem register_test_unknown_category:
  assumes "category \<notin> set (map fst test_type_switch)"
  shows "register_test construct src_file category test_name ctx w =
           (Inl (RegisteredTestError (unknown_category_error category)), w) \<and>
         sublist category (unknown_category_error category) \<and>
         (\<forall>k \<in> set (map fst test_type_switch). sublist (quoted k) (unknown_category_error category))"
proof -
  have "map_of test_type_switch category = None"
    using assms by (simp add: map_of_eq_None_iff)
  then have first: "register_test construct src_file category test_name ctx w =
      (Inl (RegisteredTestError (unknown_category_error category)), w)"
    by (simp add: register_test_def)
  have second: "sublist category (unknown_category_error category)"
    unfolding unknown_category_error_def by (rule sublist_appendI)
  have third: "sublist (quoted k) (unknown_category_error category)"
    if "k \<in> set (map fst test_type_switch)" for k
  proof -
    have "sublist (quoted k) (dict_keys_str (map fst test_type_switch))"
      using that by (rule sublist_dict_keys_str)
    then have "sublist (quoted k)
       ((''RegisteredTestFactory.register_test(): Category '' @ category @
         '' is not recognized. Existing categories '' @ ''are '') @
        dict_keys_str (map fst test_type_switch) @
        (''. Add new category and new test implementation as a subclass of '' @
         ''`RegisteredTest`.''))"
      by (rule sublist_in_append)
    then show ?thesis
      by (simp only: unknown_category_error_def append_assoc)
  qed
  from first second third show ?thesis by blast
qed

text \<open>The text of the error for the category \<^verbatim>\<open>extern_expected_output\<close>.\<close>

lemma example_message:
  "unknown_category_error ''extern_expected_output'' =
     ''RegisteredTestFactory.register_test(): Category extern_expected_output is not recognized. '' @
     ''Existing categories are dict_keys(['' @ [CHR 0x27] @ ''mock_category'' @ [CHR 0x27] @ '', '' @
     [CHR 0x27] @ ''expected_failure'' @ [CHR 0x27] @ '', '' @
     [CHR 0x27] @ ''expected_failure_message'' @ [CHR 0x27] @ '', '' @
     [CHR 0x27] @ ''expected_output'' @ [CHR 0x27] @ '', '' @
     [CHR 0x27] @ ''analysis_finished'' @ [CHR 0x27] @
     '']). Add new category and new test implementation as a subclass of `RegisteredTest`.''"
  by (simp add: unknown_category_error_def dict_keys_str_def test_type_switch_def quoted_def)

theorem register_test_unknown_category_witness:
  "''extern_expected_output'' \<notin> set (map fst test_type_switch) \<and>
   ''expected_output'' \<in> set (map fst test_type_switch) \<and>
   register_test counting_construct ''tests/extern.wdl'' ''extern_expected_output'' ''extern'' () 0 =
     (Inl (RegisteredTestError (unknown_category_error ''extern_expected_output'')), 0) \<and>
   sublist ''extern_expected_output'' (unknown_category_error ''extern_expected_output'') \<and>
   sublist (quoted ''expected_output'') (unknown_category_error ''extern_expected_output'') \<and>
   register_test counting_construct ''tests/add.wdl'' ''expected_output'' ''add'' () 0 =
     (Inr ExpectedOutput, 1)"
proof -
  have unknown: "''extern_expected_output'' \<notin> set (map fst test_type_switch)"
    by (simp add: test_type_switch_def)
  have known: "''expected_output'' \<in> set (map fst test_type_switch)"
    by (simp add: test_type_switch_def)
  have registered: "register_test counting_construct ''tests/add.wdl'' ''expected_output'' ''add'' () 0 =
     (Inr ExpectedOutput, 1)"
    by (simp add: register_test_def test_type_switch_def counting_construct_def)
  note inst = register_test_unknown_category[OF unknown, of counting_construct "''tests/extern.wdl''" "''extern''" "()" 0]
  from inst known have "sublist (quoted ''expected_output'') (unknown_category_error ''extern_expected_output'')"
    by blast
  with inst unknown known registered show ?thesis by blast
qed

section \<open>Properties of the extern test class\<close>

text \<open>
  For a test instance as its constructor leaves it, the guarded statements stop at
  \<^verbatim>\<open>os.path.exists\<close>, which raises a \<^verbatim>\<open>TypeError\<close> for the tuple.
\<close>

lemma guarded_setup_init: "guarded_setup (extern_init ctx) w = (Inl TypeError, w)"
  by (simp add: guarded_setup_def extern_init_def os_path_exists_def)

text \<open>
  Claim C8. Whatever exception the guarded setup raises, \<open>compile_executable\<close> does not
  pass it on: with the lock free at entry, the call releases the lock, stores the error
  set in \<open>test_results\<close>, runs the inherited compile step and returns its result.
\<close>

theorem compile_executable_catches:
  assumes "\<not> lock_held w"
    and "guarded_setup self (w\<lparr>lock_held := True\<rparr>) = (Inl e, w1)"
  shows "compile_executable super_compile self w =
           Some (super_compile (self\<lparr>test_results := Some error_creating_extern\<rparr>)
                   (w1\<lparr>lock_held := False\<rparr>))"
  using assms by (simp add: compile_executable_def)

text \<open>
  With the lock free at entry the call always returns, and what it returns is a result of
  the inherited compile step, reached with the lock released.
\<close>

lemma compile_executable_returns:
  assumes "\<not> lock_held w"
  shows "\<exists>self' w'. compile_executable super_compile self w = Some (super_compile self' w') \<and>
           \<not> lock_held w'"
proof -
  obtain r w1 where g: "guarded_setup self (w\<lparr>lock_held := True\<rparr>) = (r, w1)"
    by force
  show ?thesis
  proof (cases r)
    case (Inl e)
    with g assms have "compile_executable super_compile self w =
        Some (super_compile (self\<lparr>test_results := Some error_creating_extern\<rparr>)
                (w1\<lparr>lock_held := False\<rparr>))"
      by (simp add: compile_executable_def)
    moreover have "\<not> lock_held (w1\<lparr>lock_held := False\<rparr>)" by simp
    ultimately show ?thesis by blast
  next
    case (Inr u)
    with g assms have "compile_executable super_compile self w =
        Some (super_compile self (w1\<lparr>lock_held := False\<rparr>))"
      by (simp add: compile_executable_def)
    moreover have "\<not> lock_held (w1\<lparr>lock_held := False\<rparr>)" by simp
    ultimately show ?thesis by blast
  qed
qed

text \<open>
  With a string as path and a platform API that answers with an error, the exception comes
  from the search for the first applet.
\<close>

lemma example_search_fails:
  "guarded_setup ((extern_init example_context)\<lparr>extern_path := PathStr example_extern_file\<rparr>)
     ((example_harness (Some KeyError))\<lparr>lock_held := True\<rparr>) =
   (Inl KeyError, (example_harness (Some KeyError))\<lparr>lock_held := True\<rparr>)"
  by (simp add: guarded_setup_def os_path_exists_def native_call_setup_def native_applets_def
        find_data_objects_def example_harness_def)

theorem compile_executable_catches_witness:
  "\<not> lock_held (example_harness None) \<and>
   guarded_setup (extern_init example_context) ((example_harness None)\<lparr>lock_held := True\<rparr>) =
     (Inl TypeError, (example_harness None)\<lparr>lock_held := True\<rparr>) \<and>
   compile_executable example_super (extern_init example_context) (example_harness None) =
     Some (Inr ''applet-1 after an error'', example_harness None) \<and>
   \<not> lock_held (example_harness (Some KeyError)) \<and>
   compile_executable example_super
     ((extern_init example_context)\<lparr>extern_path := PathStr example_extern_file\<rparr>)
     (example_harness (Some KeyError)) =
     Some (Inr ''applet-1 after an error'', example_harness (Some KeyError))"
proof -
  have free: "\<not> lock_held (example_harness e)" for e
    by (simp add: example_harness_def)
  have restored: "(example_harness e)\<lparr>lock_held := True\<rparr>\<lparr>lock_held := False\<rparr> = example_harness e" for e
    by (simp add: example_harness_def)
  have first: "compile_executable example_super (extern_init example_context) (example_harness None) =
     Some (Inr ''applet-1 after an error'', example_harness None)"
    using compile_executable_catches[OF free guarded_setup_init, of example_super example_context None]
    by (simp add: example_super_def restored)
  have second: "compile_executable example_super
     ((extern_init example_context)\<lparr>extern_path := PathStr example_extern_file\<rparr>)
     (example_harness (Some KeyError)) =
     Some (Inr ''applet-1 after an error'', example_harness (Some KeyError))"
    using compile_executable_catches[OF free example_search_fails, of example_super]
    by (simp add: example_super_def restored)
  show ?thesis
    using free first second guarded_setup_init by (simp only: simp_thms)
qed

lemma step_init:
  assumes "step (\<lambda>t. extern_init ctx) (pcs, w) (pcs', w')"
  shows "issued w' = issued w \<and> applets w' = applets w \<and> local_paths w' = local_paths w"
  using assms by (cases rule: step.cases) (simp_all add: guarded_setup_init)

text \<open>
  Claim C10, for callers whose test instances come from the constructor with one shared
  context. The claim expects one build or generation in all. In every state the callers
  reach, in any interleaving, no command has been started, no applet has been built and no
  file has been written: each caller's guarded setup ends in the \<^verbatim>\<open>TypeError\<close> of
  \<^verbatim>\<open>os.path.exists\<close> before \<^verbatim>\<open>_native_call_setup\<close> is called.
\<close>

theorem callers_never_generate:
  assumes "(step (\<lambda>t. extern_init ctx))\<^sup>*\<^sup>* (pcs0, w0) (pcs, w)"
  shows "issued w = issued w0 \<and> applets w = applets w0 \<and> local_paths w = local_paths w0"
  using assms
proof (induction rule: rtranclp_induct2)
  case refl
  then show ?case by simp
next
  case (step pcs1 w1 pcs2 w2)
  then show ?case using step_init[of ctx pcs1 w1 pcs2 w2] by simp
qed

text \<open>One caller, from waiting to finished, when the lock is free.\<close>

lemma caller_run:
  assumes "\<not> lock_held w" and "pcs t = Waiting"
  shows "(step (\<lambda>t. extern_init ctx))\<^sup>*\<^sup>* (pcs, w) (pcs(t := Finished), w)"
proof -
  have a: "step (\<lambda>t. extern_init ctx) (pcs, w) (pcs(t := Holding), w\<lparr>lock_held := True\<rparr>)"
    using assms by (intro step.acquire) simp_all
  have "step (\<lambda>t. extern_init ctx) (pcs(t := Holding), w\<lparr>lock_held := True\<rparr>)
          ((pcs(t := Holding))(t := Finished),
           (snd (guarded_setup ((\<lambda>t. extern_init ctx) t) (w\<lparr>lock_held := True\<rparr>)))\<lparr>lock_held := False\<rparr>)"
    by (rule step.release) simp
  moreover have "(w\<lparr>lock_held := True\<rparr>)\<lparr>lock_held := False\<rparr> = w"
    using assms(1) by simp
  ultimately have b: "step (\<lambda>t. extern_init ctx) (pcs(t := Holding), w\<lparr>lock_held := True\<rparr>)
      (pcs(t := Finished), w)"
    by (simp add: guarded_setup_init)
  from a b show ?thesis by (meson rtranclp.rtrancl_into_rtrancl rtranclp.rtrancl_refl)
qed

theorem callers_never_generate_witness:
  "(step (\<lambda>t::bool. extern_init example_context))\<^sup>*\<^sup>*
     (\<lambda>t. Waiting, example_harness None) (\<lambda>t. Finished, example_harness None) \<and>
   issued (example_harness None) = [] \<and>
   applets (example_harness None) = {} \<and>
   example_extern_file \<notin> local_paths (example_harness None)"
proof -
  let ?step = "step (\<lambda>t::bool. extern_init example_context)"
  let ?w = "example_harness None"
  have free: "\<not> lock_held ?w"
    by (simp add: example_harness_def)
  have one: "?step\<^sup>*\<^sup>* (\<lambda>t. Waiting, ?w) ((\<lambda>t. Waiting)(True := Finished), ?w)"
    using free by (rule caller_run) simp
  have two: "?step\<^sup>*\<^sup>* ((\<lambda>t. Waiting)(True := Finished), ?w)
      (((\<lambda>t. Waiting)(True := Finished))(False := Finished), ?w)"
    using free by (rule caller_run) simp
  have all: "((\<lambda>t. Waiting)(True := Finished))(False := Finished) = (\<lambda>t::bool. Finished)"
    by auto
  from one two have run: "?step\<^sup>*\<^sup>* (\<lambda>t. Waiting, ?w) (\<lambda>t. Finished, ?w)"
    unfolding all by (rule rtranclp_trans)
  have facts: "issued ?w = []" "applets ?w = {}" "example_extern_file \<notin> local_paths ?w"
    by (simp_all add: example_harness_def)
  from callers_never_generate[OF run] run facts show ?thesis
    by (simp only: simp_thms)
qed

text \<open>
  For comparison, an instance whose path is a string: on the example state a first call
  starts the five builds and then the generation, and a second call starts nothing.
\<close>

lemma repaired_path_example:
  "let self = (extern_init example_context)\<lparr>extern_path := PathStr example_extern_file\<rparr>;
       w1 = snd (the (compile_executable example_super self (example_harness None)));
       w2 = snd (the (compile_executable example_super self w1))
   in length (issued w1) = 6 \<and> last (issued w1) = cmdline_common self @ [''-language'', ''wdl_v1.0'', ''-output'', example_extern_file]
      \<and> issued w2 = issued w1"
  by (simp add: Let_def compile_executable_def guarded_setup_def os_path_exists_def native_call_setup_def native_applets_def
        find_data_objects_def example_harness_def check_output_def native_call_dxni_def extern_init_def example_super_def)

end
